theory Spec2Isabelle
  imports Complex_Main "HOL-Library.Sublist"
begin

section \<open>Data model of the pain-management engines\<close>

text \<open>
  The engines are TypeScript functions over plain records. String-literal union types
  become datatypes, interfaces become records, optional fields become options.
  A field name that two interfaces share is prefixed in all but one of them, since the
  field names of the records of one theory must differ.
\<close>

subsection \<open>Numbers\<close>

text \<open>
  A TypeScript \<open>number\<close> is an IEEE double. The engines only compare numbers, and on
  finite doubles comparison is comparison of the real values they denote, so a finite
  number is modelled by its real value (\<open>-0\<close> and \<open>+0\<close> are the same value, as for
  \<open>===\<close>). The three non-finite values are kept apart: every comparison with \<open>NaN\<close>
  is false.
\<close>

datatype number = NaN | NegInf | Fin real | PosInf

fun num_lt :: "number \<Rightarrow> number \<Rightarrow> bool" where
  "num_lt NaN _ = False"
| "num_lt _ NaN = False"
| "num_lt PosInf _ = False"
| "num_lt _ NegInf = False"
| "num_lt (Fin x) (Fin y) = (x < y)"
| "num_lt NegInf _ = True"
| "num_lt _ PosInf = True"

fun num_le :: "number \<Rightarrow> number \<Rightarrow> bool" where
  "num_le NaN _ = False"
| "num_le _ NaN = False"
| "num_le (Fin x) (Fin y) = (x \<le> y)"
| "num_le NegInf _ = True"
| "num_le _ PosInf = True"
| "num_le PosInf _ = False"
| "num_le _ NegInf = False"

definition num_gt :: "number \<Rightarrow> number \<Rightarrow> bool" where
  "num_gt a b = num_lt b a"

definition num_ge :: "number \<Rightarrow> number \<Rightarrow> bool" where
  "num_ge a b = num_le b a"

text \<open>Strict equality \<open>===\<close> on numbers: \<open>NaN\<close> differs from itself.\<close>

definition num_eq :: "number \<Rightarrow> number \<Rightarrow> bool" where
  "num_eq a b = (a \<noteq> NaN \<and> a = b)"

subsection \<open>Enumerations\<close>

datatype PainScaleType = NRS | VAS | FLACC | WONG_BAKER | BPS | CPOT

datatype PainType = nociceptive | neuropathic | inflammatory | ischemic | mixed

datatype PainContext = rest | movement | procedural

datatype PainSeverity = none | mild | moderate | severe

datatype PatientCategory = adult | pediatric | elderly | neonate

datatype AgeUnit = years | months | days

datatype Gender = male | female | other

datatype Comorbidity =
    peptic_ulcer
  | ckd_stage_1
  | ckd_stage_2
  | ckd_stage_3a
  | ckd_stage_3b
  | ckd_stage_4
  | ckd_stage_5
  | liver_disease_mild
  | liver_disease_moderate
  | liver_disease_severe
  | heart_failure
  | ischemic_heart_disease
  | hypertension
  | diabetes
  | asthma
  | copd
  | pregnancy
  | lactation
  | opioid_tolerance
  | opioid_dependence
  | gi_bleed_history
  | coagulopathy
  | seizure_disorder
  | mental_health_disorder
  | respiratory_depression_risk

text \<open>
  A \<open>Comorbidity\<close> is a string at run time; \<open>generateMonitoringPlan\<close> tests it with
  \<open>startsWith\<close>, so the strings are kept.
\<close>

fun comorbidity_string :: "Comorbidity \<Rightarrow> string" where
  "comorbidity_string peptic_ulcer = ''peptic_ulcer''"
| "comorbidity_string ckd_stage_1 = ''ckd_stage_1''"
| "comorbidity_string ckd_stage_2 = ''ckd_stage_2''"
| "comorbidity_string ckd_stage_3a = ''ckd_stage_3a''"
| "comorbidity_string ckd_stage_3b = ''ckd_stage_3b''"
| "comorbidity_string ckd_stage_4 = ''ckd_stage_4''"
| "comorbidity_string ckd_stage_5 = ''ckd_stage_5''"
| "comorbidity_string liver_disease_mild = ''liver_disease_mild''"
| "comorbidity_string liver_disease_moderate = ''liver_disease_moderate''"
| "comorbidity_string liver_disease_severe = ''liver_disease_severe''"
| "comorbidity_string heart_failure = ''heart_failure''"
| "comorbidity_string ischemic_heart_disease = ''ischemic_heart_disease''"
| "comorbidity_string hypertension = ''hypertension''"
| "comorbidity_string diabetes = ''diabetes''"
| "comorbidity_string asthma = ''asthma''"
| "comorbidity_string copd = ''copd''"
| "comorbidity_string pregnancy = ''pregnancy''"
| "comorbidity_string lactation = ''lactation''"
| "comorbidity_string opioid_tolerance = ''opioid_tolerance''"
| "comorbidity_string opioid_dependence = ''opioid_dependence''"
| "comorbidity_string gi_bleed_history = ''gi_bleed_history''"
| "comorbidity_string coagulopathy = ''coagulopathy''"
| "comorbidity_string seizure_disorder = ''seizure_disorder''"
| "comorbidity_string mental_health_disorder = ''mental_health_disorder''"
| "comorbidity_string respiratory_depression_risk = ''respiratory_depression_risk''"

datatype EntrySeverity = entry_mild | entry_moderate | entry_severe

datatype RiskLevel = info | caution | warning | contraindicated

datatype AnalgesicClass =
    paracetamol
  | nsaid_non_selective
  | nsaid_cox2_selective
  | weak_opioid
  | strong_opioid
  | adjuvant_anticonvulsant
  | adjuvant_antidepressant
  | adjuvant_muscle_relaxant
  | topical_analgesic
  | topical_anesthetic
  | regional_anesthesia
  | anxiolytic
  | ketamine
  | nitrous_oxide

datatype AnalgesicRoute =
    oral
  | sublingual
  | intravenous
  | intramuscular
  | subcutaneous
  | transdermal
  | topical
  | rectal
  | intranasal
  | inhalation
  | regional

datatype Suitability =
  suit_recommended | suit_consider | suit_caution | suit_avoid | suit_contraindicated

datatype ProcedureType =
    wound_dressing
  | burn_dressing
  | debridement
  | suturing
  | drain_removal
  | catheter_insertion
  | lumbar_puncture
  | bone_marrow_biopsy
  | chest_tube
  | central_line
  | proc_other

datatype RedFlagSeverity = red_warning | critical

datatype ConditionLogic = any | all

datatype AgeOperator = op_gt | op_lt | op_ge | op_le

subsection \<open>Records\<close>

record ComorbidityEntry =
  condition :: Comorbidity
  entry_severity :: "EntrySeverity option"
  entry_notes :: "string option"

record PainPatientInfo =
  patient_id :: string
  initials :: string
  age :: number
  ageUnit :: AgeUnit
  weight :: "number option"
  category :: PatientCategory
  gender :: Gender

text \<open>
  Of \<open>DressingPainAssessment\<close> the fields of the specification's data model are kept;
  the identifiers, dates and free lists of the interface are read by no engine.
\<close>

record DressingPainAssessment =
  scaleUsed :: PainScaleType
  score :: number
  maxScore :: number
  severity :: PainSeverity
  painType :: PainType
  painContext :: PainContext
  location :: string
  description :: string

record AgeCondition =
  operator :: AgeOperator
  "value" :: number

record RiskRule =
  conditions :: "Comorbidity list"
  conditionLogic :: ConditionLogic
  ageCondition :: "AgeCondition option"
  rule_level :: RiskLevel
  rule_category :: string
  rule_message :: string
  rule_affectedDrugClasses :: "AnalgesicClass list"
  rule_recommendation :: string

record RiskFlag =
  flag_id :: string
  level :: RiskLevel
  flag_category :: string
  message :: string
  affectedDrugClasses :: "AnalgesicClass list"
  recommendation :: string

record AnalgesicRecommendation =
  drugClass :: AnalgesicClass
  suitability :: Suitability
  routes :: "AnalgesicRoute list"
  rationale :: string
  doseAdjustment :: "string option"
  monitoringRequired :: "string list option"

record RedFlag =
  redflag_id :: string
  redflag_severity :: RedFlagSeverity
  title :: string
  redflag_description :: string
  action :: string

section \<open>Analgesic engine: severity and WHO step\<close>

fun getWHOStep :: "PainSeverity \<Rightarrow> nat" where
  "getWHOStep none = 1"
| "getWHOStep mild = 1"
| "getWHOStep moderate = 2"
| "getWHOStep severe = 3"

definition getPainSeverity :: "number \<Rightarrow> PainSeverity" where
  "getPainSeverity s =
     (if num_eq s (Fin 0) then none
      else if num_le s (Fin 3) then mild
      else if num_le s (Fin 6) then moderate
      else severe)"

section \<open>Comorbidity risk engine\<close>

text \<open>The rule table of the engine, in the order of the source.\<close>

definition RISK_RULES :: "RiskRule list" where
  "RISK_RULES = [
    \<lparr>conditions = [peptic_ulcer, gi_bleed_history],
     conditionLogic = any,
     ageCondition = None,
     rule_level = contraindicated,
     rule_category = ''Gastrointestinal'',
     rule_message = ''NSAIDs contraindicated due to GI risk'',
     rule_affectedDrugClasses = [nsaid_non_selective, nsaid_cox2_selective],
     rule_recommendation = ''Avoid all NSAIDs. Consider paracetamol as first-line. If NSAID essential, use COX-2 selective with PPI cover after specialist review.''\<rparr>,
    \<lparr>conditions = [ckd_stage_3a, ckd_stage_3b, ckd_stage_4, ckd_stage_5],
     conditionLogic = any,
     ageCondition = None,
     rule_level = contraindicated,
     rule_category = ''Renal'',
     rule_message = ''NSAIDs contraindicated in moderate-severe CKD'',
     rule_affectedDrugClasses = [nsaid_non_selective, nsaid_cox2_selective],
     rule_recommendation = ''Avoid all NSAIDs. Use paracetamol. Opioids require dose adjustment based on eGFR.''\<rparr>,
    \<lparr>conditions = [ckd_stage_1, ckd_stage_2],
     conditionLogic = any,
     ageCondition = None,
     rule_level = caution,
     rule_category = ''Renal'',
     rule_message = ''Use NSAIDs with caution in early CKD'',
     rule_affectedDrugClasses = [nsaid_non_selective, nsaid_cox2_selective],
     rule_recommendation = ''Short-term use only. Monitor renal function. Ensure adequate hydration.''\<rparr>,
    \<lparr>conditions = [ckd_stage_4, ckd_stage_5],
     conditionLogic = any,
     ageCondition = None,
     rule_level = warning,
     rule_category = ''Renal'',
     rule_message = ''Opioid dose adjustment required in severe CKD'',
     rule_affectedDrugClasses = [weak_opioid, strong_opioid],
     rule_recommendation = ''Reduce opioid doses by 50-75%. Avoid morphine (active metabolites accumulate). Prefer fentanyl or hydromorphone.''\<rparr>,
    \<lparr>conditions = [liver_disease_severe],
     conditionLogic = any,
     ageCondition = None,
     rule_level = warning,
     rule_category = ''Hepatic'',
     rule_message = ''Paracetamol dose reduction required in severe liver disease'',
     rule_affectedDrugClasses = [paracetamol],
     rule_recommendation = ''Maximum 2g/day paracetamol. Avoid in acute liver failure. Monitor LFTs.''\<rparr>,
    \<lparr>conditions = [liver_disease_moderate, liver_disease_severe],
     conditionLogic = any,
     ageCondition = None,
     rule_level = warning,
     rule_category = ''Hepatic'',
     rule_message = ''Opioid dose adjustment required in liver disease'',
     rule_affectedDrugClasses = [weak_opioid, strong_opioid],
     rule_recommendation = ''Reduce opioid doses. Avoid codeine and tramadol (unpredictable metabolism). Increase dosing interval.''\<rparr>,
    \<lparr>conditions = [heart_failure, ischemic_heart_disease],
     conditionLogic = any,
     ageCondition = None,
     rule_level = contraindicated,
     rule_category = ''Cardiovascular'',
     rule_message = ''NSAIDs contraindicated in heart failure and IHD'',
     rule_affectedDrugClasses = [nsaid_non_selective, nsaid_cox2_selective],
     rule_recommendation = ''Avoid all NSAIDs due to cardiovascular and fluid retention risks. Use paracetamol and opioids if needed.''\<rparr>,
    \<lparr>conditions = [hypertension],
     conditionLogic = any,
     ageCondition = None,
     rule_level = caution,
     rule_category = ''Cardiovascular'',
     rule_message = ''NSAIDs may worsen hypertension'',
     rule_affectedDrugClasses = [nsaid_non_selective, nsaid_cox2_selective],
     rule_recommendation = ''Monitor blood pressure if NSAID used. Prefer short-term use. Consider paracetamol first-line.''\<rparr>,
    \<lparr>conditions = [copd, respiratory_depression_risk],
     conditionLogic = any,
     ageCondition = None,
     rule_level = warning,
     rule_category = ''Respiratory'',
     rule_message = ''Increased respiratory depression risk with opioids'',
     rule_affectedDrugClasses = [weak_opioid, strong_opioid, anxiolytic],
     rule_recommendation = ''Use lowest effective opioid dose. Start low, titrate slowly. Continuous monitoring recommended. Avoid benzodiazepines if possible.''\<rparr>,
    \<lparr>conditions = [asthma],
     conditionLogic = any,
     ageCondition = None,
     rule_level = caution,
     rule_category = ''Respiratory'',
     rule_message = ''Risk of NSAID-induced bronchospasm'',
     rule_affectedDrugClasses = [nsaid_non_selective],
     rule_recommendation = ''Avoid in aspirin-sensitive asthma. Use with caution otherwise. COX-2 selective may be safer alternative.''\<rparr>,
    \<lparr>conditions = [pregnancy],
     conditionLogic = any,
     ageCondition = None,
     rule_level = contraindicated,
     rule_category = ''Pregnancy'',
     rule_message = ''NSAIDs contraindicated in pregnancy (especially third trimester)'',
     rule_affectedDrugClasses = [nsaid_non_selective, nsaid_cox2_selective],
     rule_recommendation = ''Avoid NSAIDs. Paracetamol is preferred analgesic. Opioids only under specialist supervision.''\<rparr>,
    \<lparr>conditions = [pregnancy],
     conditionLogic = any,
     ageCondition = None,
     rule_level = warning,
     rule_category = ''Pregnancy'',
     rule_message = ''Opioid use in pregnancy requires specialist supervision'',
     rule_affectedDrugClasses = [weak_opioid, strong_opioid],
     rule_recommendation = ''Short-term use only. Monitor for neonatal abstinence syndrome if used near delivery. Avoid codeine.''\<rparr>,
    \<lparr>conditions = [lactation],
     conditionLogic = any,
     ageCondition = None,
     rule_level = caution,
     rule_category = ''Lactation'',
     rule_message = ''Analgesic choice requires consideration of breastfeeding'',
     rule_affectedDrugClasses = [weak_opioid, strong_opioid, nsaid_non_selective],
     rule_recommendation = ''Paracetamol and ibuprofen are compatible with breastfeeding. Avoid codeine. Use lowest effective dose of any analgesic.''\<rparr>,
    \<lparr>conditions = [opioid_tolerance],
     conditionLogic = any,
     ageCondition = None,
     rule_level = info,
     rule_category = ''Pain History'',
     rule_message = ''Patient is opioid tolerant - higher doses may be required'',
     rule_affectedDrugClasses = [weak_opioid, strong_opioid],
     rule_recommendation = ''Calculate opioid requirement based on current daily dose. May need higher starting doses for acute pain. Multimodal analgesia recommended.''\<rparr>,
    \<lparr>conditions = [opioid_dependence],
     conditionLogic = any,
     ageCondition = None,
     rule_level = warning,
     rule_category = ''Pain History'',
     rule_message = ''History of opioid dependence - careful opioid management required'',
     rule_affectedDrugClasses = [weak_opioid, strong_opioid],
     rule_recommendation = ''Develop clear pain management plan. Consider addiction medicine consultation. Maximize non-opioid strategies. If opioids needed, use structured approach with defined endpoints.''\<rparr>,
    \<lparr>conditions = [coagulopathy],
     conditionLogic = any,
     ageCondition = None,
     rule_level = contraindicated,
     rule_category = ''Hematologic'',
     rule_message = ''NSAIDs contraindicated with coagulopathy'',
     rule_affectedDrugClasses = [nsaid_non_selective],
     rule_recommendation = ''Avoid non-selective NSAIDs. COX-2 selective may be considered with caution. Avoid intramuscular injections.''\<rparr>,
    \<lparr>conditions = [seizure_disorder],
     conditionLogic = any,
     ageCondition = None,
     rule_level = contraindicated,
     rule_category = ''Neurological'',
     rule_message = ''Tramadol contraindicated in seizure disorder'',
     rule_affectedDrugClasses = [weak_opioid],
     rule_recommendation = ''Avoid tramadol (lowers seizure threshold). Consider other opioids if needed. Gabapentinoids may be useful adjuvants.''\<rparr>,
    \<lparr>conditions = [mental_health_disorder],
     conditionLogic = any,
     ageCondition = None,
     rule_level = caution,
     rule_category = ''Psychiatric'',
     rule_message = ''Increased risk of opioid misuse in mental health disorders'',
     rule_affectedDrugClasses = [weak_opioid, strong_opioid],
     rule_recommendation = ''Careful assessment and monitoring. Defined treatment duration. Consider non-opioid strategies. Liaise with mental health team if needed.''\<rparr>]"

text \<open>
  \<open>crypto.randomUUID()\<close> is the only effect of the engines. The identifiers one call
  of an engine draws are given to it as a sequence \<open>gen\<close>: \<open>gen k\<close> is the result of the
  \<open>k\<close>-th draw (counted from 0). Each engine draws exactly once for every element it
  pushes onto its initially empty result list, so the element pushed onto a list of
  length \<open>k\<close> carries \<open>gen k\<close>.
\<close>

type_synonym idgen = "nat \<Rightarrow> string"

text \<open>The test of one rule: the condition match, then the age condition when present.\<close>

definition conditionsMet :: "RiskRule \<Rightarrow> Comorbidity list \<Rightarrow> PainPatientInfo \<Rightarrow> bool" where
  "conditionsMet rule patientConditions patient =
     (let met = (case conditionLogic rule of
                   any \<Rightarrow> list_ex (\<lambda>c. c \<in> set patientConditions) (conditions rule)
                 | all \<Rightarrow> list_all (\<lambda>c. c \<in> set patientConditions) (conditions rule))
      in case ageCondition rule of
           None \<Rightarrow> met
         | Some ac \<Rightarrow>
             if met then
               (case operator ac of
                  op_gt \<Rightarrow> num_gt (age patient) (value ac)
                | op_lt \<Rightarrow> num_lt (age patient) (value ac)
                | op_ge \<Rightarrow> num_ge (age patient) (value ac)
                | op_le \<Rightarrow> num_le (age patient) (value ac))
             else met)"

definition ruleFlag :: "string \<Rightarrow> RiskRule \<Rightarrow> RiskFlag" where
  "ruleFlag i rule =
     \<lparr>flag_id = i,
      level = rule_level rule,
      flag_category = rule_category rule,
      message = rule_message rule,
      affectedDrugClasses = rule_affectedDrugClasses rule,
      recommendation = rule_recommendation rule\<rparr>"

text \<open>The loop over the rules, with the list of flags pushed so far.\<close>

fun evaluateRules ::
  "idgen \<Rightarrow> RiskRule list \<Rightarrow> Comorbidity list \<Rightarrow> PainPatientInfo \<Rightarrow> RiskFlag list \<Rightarrow> RiskFlag list"
where
  "evaluateRules gen [] patientConditions patient flags = flags"
| "evaluateRules gen (rule # rules) patientConditions patient flags =
     evaluateRules gen rules patientConditions patient
       (if conditionsMet rule patientConditions patient
        then flags @ [ruleFlag (gen (length flags)) rule]
        else flags)"

definition elderlyFlag :: "string \<Rightarrow> RiskFlag" where
  "elderlyFlag i =
     \<lparr>flag_id = i,
      level = caution,
      flag_category = ''Age'',
      message = ''Elderly patient - consider age-related pharmacokinetic changes'',
      affectedDrugClasses = [nsaid_non_selective, nsaid_cox2_selective, weak_opioid, strong_opioid],
      recommendation = ''Start low, go slow with all analgesics. Increased sensitivity to opioids. Higher NSAID GI/CV/renal risks. Consider reduced doses.''\<rparr>"

definition pediatricFlag :: "string \<Rightarrow> RiskFlag" where
  "pediatricFlag i =
     \<lparr>flag_id = i,
      level = info,
      flag_category = ''Age'',
      message = ''Pediatric patient - weight-based dosing required'',
      affectedDrugClasses = [paracetamol, nsaid_non_selective, weak_opioid, strong_opioid],
      recommendation = ''All doses must be calculated per kilogram. Avoid codeine in children. Use age-appropriate formulations.''\<rparr>"

definition neonateFlag :: "string \<Rightarrow> RiskFlag" where
  "neonateFlag i =
     \<lparr>flag_id = i,
      level = warning,
      flag_category = ''Age'',
      message = ''Neonate - specialist pain management required'',
      affectedDrugClasses = [paracetamol, weak_opioid, strong_opioid],
      recommendation = ''Neonatal-specific dosing protocols required. Immature hepatic and renal function. Consider non-pharmacological measures (sucrose, swaddling, skin-to-skin).''\<rparr>"

definition generateRiskFlags :: "idgen \<Rightarrow> ComorbidityEntry list \<Rightarrow> PainPatientInfo \<Rightarrow> RiskFlag list" where
  "generateRiskFlags gen comorbidities patient =
     (let patientConditions = map condition comorbidities;
          flags1 = evaluateRules gen RISK_RULES patientConditions patient [];
          flags2 = (if category patient = elderly \<or> num_ge (age patient) (Fin 65)
                    then flags1 @ [elderlyFlag (gen (length flags1))] else flags1);
          flags3 = (if category patient = pediatric
                    then flags2 @ [pediatricFlag (gen (length flags2))] else flags2);
          flags4 = (if category patient = neonate
                    then flags3 @ [neonateFlag (gen (length flags3))] else flags3)
      in flags4)"

text \<open>
  \<open>getContraindicatedClasses\<close> collects into a JavaScript \<open>Set\<close> and returns
  \<open>Array.from\<close> of it: the classes in the order of their first insertion, each once.
\<close>

definition set_add :: "'a list \<Rightarrow> 'a \<Rightarrow> 'a list" where
  "set_add s c = (if c \<in> set s then s else s @ [c])"

definition getContraindicatedClasses :: "RiskFlag list \<Rightarrow> AnalgesicClass list" where
  "getContraindicatedClasses flags =
     foldl (\<lambda>acc flag. if level flag = contraindicated
                         then foldl set_add acc (affectedDrugClasses flag) else acc)
           [] flags"

text \<open>\<open>Array.prototype.indexOf\<close>: the first position of the element, or \<open>-1\<close>.\<close>

fun indexOf :: "'a list \<Rightarrow> 'a \<Rightarrow> int" where
  "indexOf [] x = -1"
| "indexOf (y # ys) x =
     (if y = x then 0 else (let i = indexOf ys x in if i < 0 then -1 else i + 1))"

definition levels :: "RiskLevel list" where
  "levels = [info, caution, warning, contraindicated]"

record DrugClassSafety =
  safe :: bool
  safety_level :: RiskLevel
  warnings :: "string list"

text \<open>The body of the loop that looks for the highest level.\<close>

definition higherLevel :: "RiskLevel \<Rightarrow> RiskFlag \<Rightarrow> RiskLevel" where
  "higherLevel highestLevel flag =
     (if indexOf levels (level flag) > indexOf levels highestLevel
      then level flag else highestLevel)"

definition checkDrugClassSafety :: "AnalgesicClass \<Rightarrow> RiskFlag list \<Rightarrow> DrugClassSafety" where
  "checkDrugClassSafety drugClass' flags =
     (let relevantFlags = filter (\<lambda>f. drugClass' \<in> set (affectedDrugClasses f)) flags
      in if length relevantFlags = 0
         then \<lparr>safe = True, safety_level = info, warnings = []\<rparr>
         else
           (let highestLevel = foldl higherLevel info relevantFlags
            in \<lparr>safe = (highestLevel \<noteq> contraindicated),
                safety_level = highestLevel,
                warnings = map message relevantFlags\<rparr>))"

section \<open>Strings\<close>

text \<open>
  A text is the list of its bytes. \<open>toLowerCase\<close> is modelled on the letters \<open>A\<close> to
  \<open>Z\<close> and leaves every other byte as it is. The engines apply it only before
  searching for the ASCII word \<open>spasm\<close>, and no character outside ASCII has one of
  the letters of that word as its lower-case form, so the search gives the same answer
  as on the full lower-casing.
\<close>

definition lower_char :: "char \<Rightarrow> char" where
  "lower_char c =
     (let n = (of_char c :: nat) in if 65 \<le> n \<and> n \<le> 90 then char_of (n + 32) else c)"

definition toLowerCase :: "string \<Rightarrow> string" where
  "toLowerCase s = map lower_char s"

definition startsWith :: "string \<Rightarrow> string \<Rightarrow> bool" where
  "startsWith s p = prefix p s"

text \<open>\<open>String.prototype.includes\<close>: the needle occurs at some position.\<close>

fun includes_str :: "string \<Rightarrow> string \<Rightarrow> bool" where
  "includes_str [] needle = (needle = [])"
| "includes_str (c # cs) needle = (prefix needle (c # cs) \<or> includes_str cs needle)"

fun join :: "string list \<Rightarrow> string \<Rightarrow> string" where
  "join [] sep = []"
| "join [x] sep = x"
| "join (x # y # ys) sep = x @ sep @ join (y # ys) sep"

fun severity_string :: "PainSeverity \<Rightarrow> string" where
  "severity_string none = ''none''"
| "severity_string mild = ''mild''"
| "severity_string moderate = ''moderate''"
| "severity_string severe = ''severe''"

section \<open>Analgesic engine\<close>

definition getApplicableNonPharmacological ::
  "DressingPainAssessment \<Rightarrow> PainPatientInfo \<Rightarrow> string list" where
  "getApplicableNonPharmacological assessment patient =
     (let applicable1 = [''Positioning and comfort measures'',
                         ''Relaxation and breathing exercises''];
          applicable2 =
            (if category patient = pediatric then
               applicable1 @ [''Distraction techniques'', ''Play therapy (pediatric)'',
                              ''Parental presence (pediatric)'']
             else if category patient = neonate then
               applicable1 @ [''Sucrose solution (neonatal)'', ''Swaddling (neonatal)'',
                              ''Skin-to-skin contact (neonatal)'']
             else
               applicable1 @ [''Distraction techniques'', ''Music therapy'',
                              ''Guided imagery'']);
          applicable3 =
            (if painType assessment = nociceptive \<or> painType assessment = inflammatory then
               (if painContext assessment \<noteq> procedural
                then applicable2 @ [''Cold therapy / cryotherapy'', ''Heat therapy'']
                else applicable2)
             else applicable2);
          applicable4 =
            (if painType assessment = neuropathic
             then applicable3 @ [''TENS (Transcutaneous Electrical Nerve Stimulation)'']
             else applicable3)
      in applicable4)"

text \<open>\<open>warnings.length > 0 ? warnings.join('. ') : undefined\<close>\<close>

definition doseAdjustmentOf :: "DrugClassSafety \<Rightarrow> string option" where
  "doseAdjustmentOf s = (if length (warnings s) > 0 then Some (join (warnings s) ''. '') else None)"

record AnalgesicPlan =
  primaryRecommendations :: "AnalgesicRecommendation list"
  adjunctRecommendations :: "AnalgesicRecommendation list"
  contraindicatedClasses :: "AnalgesicClass list"
  nonPharmacological :: "string list"

text \<open>The object literals that \<open>generateAnalgesicRecommendations\<close> pushes.\<close>

definition paracetamolRecommendation :: "RiskFlag list \<Rightarrow> AnalgesicRecommendation" where
  "paracetamolRecommendation riskFlags =
     (let paracetamolSafety = checkDrugClassSafety paracetamol riskFlags
      in \<lparr>drugClass = paracetamol,
          suitability = (if safe paracetamolSafety then suit_recommended else suit_caution),
          routes = [oral, intravenous, rectal],
          rationale = ''First-line analgesic for all pain levels. Safe in most patients.'',
          doseAdjustment = doseAdjustmentOf paracetamolSafety,
          monitoringRequired =
            (if safety_level paracetamolSafety \<noteq> info
             then Some [''Liver function if prolonged use''] else None)\<rparr>)"

definition nsaidRecommendation :: "RiskFlag list \<Rightarrow> AnalgesicRecommendation" where
  "nsaidRecommendation riskFlags =
     (let nsaidSafety = checkDrugClassSafety nsaid_non_selective riskFlags
      in \<lparr>drugClass = nsaid_non_selective,
          suitability =
            (if safety_level nsaidSafety = info then suit_recommended
             else if safety_level nsaidSafety = caution then suit_consider
             else suit_caution),
          routes = [oral, intravenous, topical],
          rationale = ''Effective for inflammatory and nociceptive pain. Consider GI protection.'',
          doseAdjustment = doseAdjustmentOf nsaidSafety,
          monitoringRequired = Some [''Renal function'', ''GI symptoms'', ''Blood pressure'']\<rparr>)"

definition weakOpioidRecommendation :: "RiskFlag list \<Rightarrow> AnalgesicRecommendation" where
  "weakOpioidRecommendation riskFlags =
     (let weakOpioidSafety = checkDrugClassSafety weak_opioid riskFlags
      in \<lparr>drugClass = weak_opioid,
          suitability =
            (if safety_level weakOpioidSafety = info then suit_recommended
             else if safety_level weakOpioidSafety = caution then suit_consider
             else suit_caution),
          routes = [oral, intravenous],
          rationale = ''Step 2 WHO ladder for moderate pain not controlled by non-opioids alone.'',
          doseAdjustment = doseAdjustmentOf weakOpioidSafety,
          monitoringRequired =
            Some [''Sedation level'', ''Respiratory rate'', ''Constipation'', ''Nausea'']\<rparr>)"

definition strongOpioidRecommendation :: "RiskFlag list \<Rightarrow> AnalgesicRecommendation" where
  "strongOpioidRecommendation riskFlags =
     (let strongOpioidSafety = checkDrugClassSafety strong_opioid riskFlags
      in \<lparr>drugClass = strong_opioid,
          suitability =
            (if safety_level strongOpioidSafety = info then suit_recommended
             else if safety_level strongOpioidSafety = warning then suit_caution
             else suit_consider),
          routes = [oral, intravenous, subcutaneous, transdermal],
          rationale = ''Step 3 WHO ladder for severe pain. Titrate to effect.'',
          doseAdjustment = doseAdjustmentOf strongOpioidSafety,
          monitoringRequired =
            Some [''Sedation scoring'', ''Respiratory rate q1-4h'', ''Pain score'', ''Side effects'']\<rparr>)"

definition anticonvulsantRecommendation :: AnalgesicRecommendation where
  "anticonvulsantRecommendation =
     \<lparr>drugClass = adjuvant_anticonvulsant,
      suitability = suit_consider,
      routes = [oral],
      rationale = ''First-line adjuvant for neuropathic pain component.'',
      doseAdjustment = None,
      monitoringRequired = Some [''Sedation'', ''Dizziness'', ''Peripheral edema'']\<rparr>"

definition antidepressantRecommendation :: AnalgesicRecommendation where
  "antidepressantRecommendation =
     \<lparr>drugClass = adjuvant_antidepressant,
      suitability = suit_consider,
      routes = [oral],
      rationale = ''Alternative or addition for neuropathic pain.'',
      doseAdjustment = None,
      monitoringRequired = Some [''Anticholinergic effects'', ''Cardiac effects (TCAs)'']\<rparr>"

definition topicalRecommendation :: AnalgesicRecommendation where
  "topicalRecommendation =
     \<lparr>drugClass = topical_analgesic,
      suitability = suit_consider,
      routes = [topical],
      rationale = ''Topical option for localized pain with minimal systemic effects.'',
      doseAdjustment = None,
      monitoringRequired = Some [''Local skin reaction'']\<rparr>"

definition muscleRelaxantRecommendation :: AnalgesicRecommendation where
  "muscleRelaxantRecommendation =
     \<lparr>drugClass = adjuvant_muscle_relaxant,
      suitability = suit_consider,
      routes = [oral],
      rationale = ''May help if muscle spasm component present.'',
      doseAdjustment = None,
      monitoringRequired = Some [''Sedation'', ''Weakness'']\<rparr>"

text \<open>
  The function itself: the two result lists start empty and each block of the source
  pushes onto them under its conditions. A non-empty \<open>location\<close> is what \<open>&&\<close> takes
  for true.
\<close>

definition generateAnalgesicRecommendations ::
  "DressingPainAssessment \<Rightarrow> RiskFlag list \<Rightarrow> PainPatientInfo \<Rightarrow> AnalgesicPlan" where
  "generateAnalgesicRecommendations assessment riskFlags patient =
     (let contraindicated' = getContraindicatedClasses riskFlags;
          whoStep = getWHOStep (severity assessment);
          primary1 =
            (if whoStep \<ge> 1 then
               (let pushed = [paracetamolRecommendation riskFlags]
                in if nsaid_non_selective \<notin> set contraindicated' then
                     (if painType assessment = inflammatory \<or> painType assessment = nociceptive
                      then pushed @ [nsaidRecommendation riskFlags]
                      else pushed)
                   else pushed)
             else []);
          primary2 =
            (if whoStep \<ge> 2 then
               (if weak_opioid \<notin> set contraindicated'
                then primary1 @ [weakOpioidRecommendation riskFlags]
                else primary1)
             else primary1);
          primary3 =
            (if whoStep \<ge> 3 then
               (if strong_opioid \<notin> set contraindicated'
                then primary2 @ [strongOpioidRecommendation riskFlags]
                else primary2)
             else primary2);
          adjunct1 =
            (if painType assessment = neuropathic \<or> painType assessment = mixed
             then [anticonvulsantRecommendation, antidepressantRecommendation]
             else []);
          adjunct2 =
            (if location assessment \<noteq> [] \<and>
                (painType assessment = nociceptive \<or> painType assessment = inflammatory)
             then adjunct1 @ [topicalRecommendation]
             else adjunct1);
          adjunct3 =
            (if painType assessment = nociceptive \<and>
                includes_str (toLowerCase (description assessment)) ''spasm''
             then adjunct2 @ [muscleRelaxantRecommendation]
             else adjunct2)
      in \<lparr>primaryRecommendations = primary3,
          adjunctRecommendations = adjunct3,
          contraindicatedClasses = contraindicated',
          nonPharmacological = getApplicableNonPharmacological assessment patient\<rparr>)"

subsection \<open>Procedural pain plan\<close>

record PreEmptiveAnalgesia =
  pre_required :: bool
  timing :: string
  recommendations :: "AnalgesicRecommendation list"

record IntraProceduralAnalgesia =
  topical_used :: bool
  topicalAgent :: "string option"
  regional_used :: bool
  regionalTechnique :: "string option"
  systemic :: bool
  systemicOptions :: "AnalgesicRecommendation list"

record Anxiolysis =
  anx_recommended :: bool
  anx_rationale :: "string option"

record ProceduralPainPlan =
  procedureType :: ProcedureType
  procedureDescription :: string
  anticipatedPainLevel :: PainSeverity
  preEmptiveAnalgesia :: PreEmptiveAnalgesia
  intraProceduralAnalgesia :: IntraProceduralAnalgesia
  anxiolysis :: Anxiolysis
  plan_nonPharmacological :: "string list"
  monitoringDuring :: "string list"
  postProcedureFollow :: "string list"

definition anticipatedLevel :: "ProcedureType \<Rightarrow> PainSeverity" where
  "anticipatedLevel pt =
     (if pt = burn_dressing \<or> pt = debridement \<or> pt = chest_tube \<or> pt = bone_marrow_biopsy
      then severe
      else if pt = drain_removal \<or> pt = catheter_insertion then mild
      else moderate)"

text \<open>The object literals that \<open>generateProceduralPainPlan\<close> pushes.\<close>

definition preEmptiveParacetamol :: AnalgesicRecommendation where
  "preEmptiveParacetamol =
     \<lparr>drugClass = paracetamol,
      suitability = suit_recommended,
      routes = [oral, intravenous],
      rationale = ''Pre-emptive non-opioid analgesia'',
      doseAdjustment = None,
      monitoringRequired = None\<rparr>"

definition preEmptiveOpioid :: "PainSeverity \<Rightarrow> AnalgesicRecommendation" where
  "preEmptiveOpioid anticipated =
     \<lparr>drugClass = (if anticipated = severe then strong_opioid else weak_opioid),
      suitability = suit_recommended,
      routes = [oral, intravenous],
      rationale = ''Pre-emptive opioid for anticipated '' @ severity_string anticipated
                    @ '' procedural pain'',
      doseAdjustment = None,
      monitoringRequired = None\<rparr>"

definition systemicStrongOpioid :: AnalgesicRecommendation where
  "systemicStrongOpioid =
     \<lparr>drugClass = strong_opioid,
      suitability = suit_recommended,
      routes = [intravenous],
      rationale = ''IV opioid for severe procedural pain'',
      doseAdjustment = None,
      monitoringRequired = None\<rparr>"

definition systemicKetamine :: AnalgesicRecommendation where
  "systemicKetamine =
     \<lparr>drugClass = ketamine,
      suitability = suit_consider,
      routes = [intravenous, intranasal],
      rationale = ''Sub-dissociative ketamine for severe procedural pain'',
      doseAdjustment = None,
      monitoringRequired = None\<rparr>"

definition systemicNitrousOxide :: AnalgesicRecommendation where
  "systemicNitrousOxide =
     \<lparr>drugClass = nitrous_oxide,
      suitability = suit_consider,
      routes = [inhalation],
      rationale = ''Inhaled analgesia for procedure-related anxiety and pain'',
      doseAdjustment = None,
      monitoringRequired = None\<rparr>"

definition generateProceduralPainPlan ::
  "ProcedureType \<Rightarrow> string \<Rightarrow> DressingPainAssessment \<Rightarrow> RiskFlag list \<Rightarrow> PainPatientInfo
     \<Rightarrow> ProceduralPainPlan" where
  "generateProceduralPainPlan pt pdesc baselineAssessment riskFlags patient =
     (let contraindicated' = getContraindicatedClasses riskFlags;
          anticipated = anticipatedLevel pt;
          preEmptive1 = [preEmptiveParacetamol];
          preEmptive2 =
            (if anticipated = moderate \<or> anticipated = severe then
               (if strong_opioid \<notin> set contraindicated'
                then preEmptive1 @ [preEmptiveOpioid anticipated]
                else preEmptive1)
             else preEmptive1);
          systemic1 =
            (if anticipated = severe then
               (if strong_opioid \<notin> set contraindicated' then [systemicStrongOpioid] else [])
               @ [systemicKetamine, systemicNitrousOxide]
             else []);
          preEmptiveTiming = ''30-60 minutes pre-procedure (oral) or 15-30 minutes (IV)'';
          useTopical = (pt = wound_dressing \<or> pt = burn_dressing \<or> pt = debridement \<or>
                        pt = suturing \<or> pt = catheter_insertion);
          considerRegional = (pt = debridement \<or> pt = bone_marrow_biopsy \<or> pt = chest_tube \<or>
                              pt = central_line \<or> pt = suturing);
          anxiolysisRecommended = (anticipated = severe \<or> pt = bone_marrow_biopsy \<or>
                                   pt = lumbar_puncture);
          monitoring1 = [''Pain score at regular intervals''];
          monitoring2 =
            (if anticipated = severe \<or> list_ex (\<lambda>o'. drugClass o' = strong_opioid) systemic1
             then monitoring1 @ [''Sedation level'', ''Respiratory rate'', ''Oxygen saturation'']
             else monitoring1);
          monitoring3 =
            (if list_ex (\<lambda>o'. drugClass o' = ketamine) systemic1
             then monitoring2 @ [''Blood pressure'', ''Emergence phenomena'']
             else monitoring2);
          follow1 = [''Pain score 30 minutes post-procedure'',
                     ''Assess for adequate analgesia'',
                     ''Document analgesic effectiveness''];
          follow2 =
            (if anticipated = severe
             then follow1 @ [''Continue monitoring for 2-4 hours post-procedure'',
                             ''PRN analgesia availability'']
             else follow1);
          nonPharm = getApplicableNonPharmacological baselineAssessment patient
                       @ [''Explanation and preparation before procedure'',
                          ''Minimize procedure duration where possible'']
      in \<lparr>procedureType = pt,
          procedureDescription = pdesc,
          anticipatedPainLevel = anticipated,
          preEmptiveAnalgesia =
            \<lparr>pre_required = True, timing = preEmptiveTiming, recommendations = preEmptive2\<rparr>,
          intraProceduralAnalgesia =
            \<lparr>topical_used = useTopical,
             topicalAgent = (if useTopical
                             then Some ''Lidocaine gel/EMLA cream applied 30-60 min before''
                             else None),
             regional_used = considerRegional,
             regionalTechnique = (if considerRegional
                                  then Some ''Local infiltration or regional block as appropriate''
                                  else None),
             systemic = (anticipated \<noteq> mild),
             systemicOptions = systemic1\<rparr>,
          anxiolysis =
            \<lparr>anx_recommended = anxiolysisRecommended,
             anx_rationale = (if anxiolysisRecommended
                              then Some ''Procedure-related anxiety may exacerbate pain perception''
                              else None)\<rparr>,
          plan_nonPharmacological = nonPharm,
          monitoringDuring = monitoring3,
          postProcedureFollow = follow2\<rparr>)"

section \<open>Safety and monitoring module\<close>

record SedationMonitoring =
  sed_required :: bool
  sed_frequency :: "string option"
  sed_scale :: "string option"

record RespiratoryMonitoring =
  resp_required :: bool
  resp_frequency :: "string option"
  resp_parameters :: "string list option"

record CardiovascularMonitoring =
  cv_required :: bool
  cv_frequency :: "string option"
  cv_parameters :: "string list option"

record RenalMonitoring =
  renal_required :: bool
  renal_frequency :: "string option"
  renal_tests :: "string list option"

record GiProtection =
  gi_required :: bool
  gi_recommendations :: "string list option"

record MonitoringPlan =
  sedationMonitoring :: SedationMonitoring
  respiratoryMonitoring :: RespiratoryMonitoring
  cardiovascularMonitoring :: CardiovascularMonitoring
  renalMonitoring :: RenalMonitoring
  giProtection :: GiProtection
  otherMonitoring :: "string list"

text \<open>\<open>[..., cond ? text : null].filter(Boolean)\<close> keeps the texts that are present
  (none of the texts of the source is empty).\<close>

definition filterBoolean :: "string option list \<Rightarrow> string list" where
  "filterBoolean xs = concat (map (\<lambda>x. case x of None \<Rightarrow> [] | Some s \<Rightarrow> if s = [] then [] else [s]) xs)"

definition generateMonitoringPlan ::
  "AnalgesicRecommendation list \<Rightarrow> RiskFlag list \<Rightarrow> PainPatientInfo \<Rightarrow> ComorbidityEntry list
     \<Rightarrow> MonitoringPlan" where
  "generateMonitoringPlan recs riskFlags' patient comorbidities =
     (let hasOpioids = list_ex (\<lambda>r. drugClass r = weak_opioid \<or> drugClass r = strong_opioid) recs;
          hasStrongOpioids = list_ex (\<lambda>r. drugClass r = strong_opioid) recs;
          hasNSAIDs = list_ex (\<lambda>r. drugClass r = nsaid_non_selective \<or>
                                     drugClass r = nsaid_cox2_selective) recs;
          hasKetamine = list_ex (\<lambda>r. drugClass r = ketamine) recs;
          hasAnxiolytics = list_ex (\<lambda>r. drugClass r = anxiolytic) recs;
          hasRenalRisk = list_ex (\<lambda>c. startsWith (comorbidity_string (condition c)) ''ckd_'')
                                 comorbidities;
          hasRespiratoryRisk = list_ex (\<lambda>c. condition c = copd \<or>
                                              condition c = respiratory_depression_risk) comorbidities;
          hasCardiovascularRisk = list_ex (\<lambda>c. condition c = heart_failure \<or>
                                                 condition c = ischemic_heart_disease) comorbidities;
          hasGIRisk = list_ex (\<lambda>c. condition c = peptic_ulcer \<or>
                                     condition c = gi_bleed_history) comorbidities;
          isElderly = (category patient = elderly \<or> num_ge (age patient) (Fin 65));
          gi1 = (if hasNSAIDs
                 then [''Consider PPI co-prescription'',
                       ''Monitor for GI symptoms (dyspepsia, abdominal pain, bleeding)'']
                 else []);
          gi2 = (if hasOpioids
                 then gi1 @ [''Prescribe laxative prophylaxis with opioids'',
                             ''Antiemetic PRN for opioid-induced nausea'']
                 else gi1);
          other1 = (if hasOpioids
                    then [''Pain score assessment at regular intervals'',
                          ''Assess for opioid side effects (nausea, constipation, pruritus)'']
                    else []);
          other2 = (if hasStrongOpioids \<and> isElderly
                    then other1 @ [''Increased frequency of cognitive assessment'',
                                   ''Falls risk assessment'']
                    else other1);
          other3 = (if hasKetamine
                    then other2 @ [''Monitor for emergence phenomena (vivid dreams, hallucinations)'',
                                   ''Assess for nystagmus'']
                    else other2);
          other4 = (if list_ex (\<lambda>r. drugClass r = adjuvant_anticonvulsant) recs
                    then other3 @ [''Monitor for dizziness and sedation'',
                                   ''Assess for peripheral edema'']
                    else other3)
      in \<lparr>sedationMonitoring =
            \<lparr>sed_required = (hasOpioids \<or> hasAnxiolytics \<or> hasKetamine),
             sed_frequency = Some (if hasStrongOpioids \<or> hasKetamine
                                   then ''Every 1 hour for first 4 hours, then every 2-4 hours''
                                   else ''Every 4 hours''),
             sed_scale = Some ''Pasero Opioid-Induced Sedation Scale (POSS) or equivalent''\<rparr>,
          respiratoryMonitoring =
            \<lparr>resp_required = (hasOpioids \<or> hasKetamine \<or> hasRespiratoryRisk),
             resp_frequency = Some (if hasStrongOpioids \<or> hasRespiratoryRisk
                                    then ''Every 1-2 hours initially, then every 4 hours''
                                    else ''Every 4 hours''),
             resp_parameters = Some (filterBoolean
               [Some ''Respiratory rate'',
                Some ''Oxygen saturation (SpO2)'',
                (if hasStrongOpioids then Some ''End-tidal CO2 if available'' else None)])\<rparr>,
          cardiovascularMonitoring =
            \<lparr>cv_required = (hasNSAIDs \<or> hasCardiovascularRisk \<or> hasKetamine),
             cv_frequency = Some ''Every 4-6 hours or as per unit protocol'',
             cv_parameters = Some (filterBoolean
               [Some ''Blood pressure'',
                Some ''Heart rate'',
                (if hasKetamine then Some ''Continuous during ketamine administration'' else None)])\<rparr>,
          renalMonitoring =
            \<lparr>renal_required = (hasNSAIDs \<or> hasRenalRisk),
             renal_frequency = Some (if hasRenalRisk then ''Daily during acute phase''
                                     else ''Every 2-3 days if prolonged NSAID use''),
             renal_tests = Some [''Serum creatinine'', ''eGFR'', ''Urine output if indicated'']\<rparr>,
          giProtection =
            \<lparr>gi_required = (hasNSAIDs \<or> hasGIRisk),
             gi_recommendations = Some gi2\<rparr>,
          otherMonitoring = other4\<rparr>)"

definition severePainFlag :: "string \<Rightarrow> RedFlag" where
  "severePainFlag i =
     \<lparr>redflag_id = i,
      redflag_severity = red_warning,
      title = ''Severe Pain'',
      redflag_description = ''Patient has severe pain requiring prompt and effective analgesia'',
      action = ''Ensure adequate analgesia is administered promptly. Reassess frequently.''\<rparr>"

definition escalatingPainFlag :: "string \<Rightarrow> RedFlag" where
  "escalatingPainFlag i =
     \<lparr>redflag_id = i,
      redflag_severity = critical,
      title = ''Escalating Pain Despite Treatment'',
      redflag_description = ''If pain escalates despite analgesic treatment, this may indicate treatment failure or underlying pathology'',
      action = ''Reassess for underlying cause. Consider dose adjustment, alternative agents, or specialist review.''\<rparr>"

definition opioidToxicityFlag :: "string \<Rightarrow> RedFlag" where
  "opioidToxicityFlag i =
     \<lparr>redflag_id = i,
      redflag_severity = critical,
      title = ''Opioid Toxicity Signs'',
      redflag_description = ''Monitor for respiratory depression (RR <8), excessive sedation (unable to rouse), pinpoint pupils'',
      action = ''STOP opioid. Administer naloxone if respiratory depression. Call for urgent medical review.''\<rparr>"

definition elderlyOpioidFlag :: "string \<Rightarrow> RedFlag" where
  "elderlyOpioidFlag i =
     \<lparr>redflag_id = i,
      redflag_severity = red_warning,
      title = ''Elderly Opioid Sensitivity'',
      redflag_description = ''Elderly patients have increased sensitivity to opioids'',
      action = ''Start with lower doses. Monitor closely for sedation and confusion.''\<rparr>"

definition nsaidFlag :: "string \<Rightarrow> RedFlag" where
  "nsaidFlag i =
     \<lparr>redflag_id = i,
      redflag_severity = red_warning,
      title = ''NSAID Adverse Effects'',
      redflag_description = ''Monitor for GI bleeding (black stools, coffee-ground vomit), AKI (reduced urine output, rising creatinine), cardiovascular events'',
      action = ''Stop NSAID if adverse effects occur. Review renal function and GI symptoms regularly.''\<rparr>"

definition proceduralFlag :: "string \<Rightarrow> RedFlag" where
  "proceduralFlag i =
     \<lparr>redflag_id = i,
      redflag_severity = red_warning,
      title = ''Inadequate Procedural Analgesia'',
      redflag_description = ''Inadequate analgesia during procedures causes significant distress and may prevent procedure completion'',
      action = ''Ensure pre-emptive analgesia is given with adequate lead time. Have rescue analgesia available. Consider procedure postponement if pain uncontrolled.''\<rparr>"

definition contraindicatedRedFlag :: "string \<Rightarrow> RiskFlag list \<Rightarrow> RedFlag" where
  "contraindicatedRedFlag i contraindicatedFlags =
     \<lparr>redflag_id = i,
      redflag_severity = critical,
      title = ''Contraindicated Drug Classes Identified'',
      redflag_description = ''Patient has contraindications to: '' @ join (map message contraindicatedFlags) ''; '',
      action = ''Ensure contraindicated drug classes are NOT prescribed. Document contraindications clearly.''\<rparr>"

definition generateRedFlags ::
  "idgen \<Rightarrow> DressingPainAssessment \<Rightarrow> AnalgesicRecommendation list \<Rightarrow> RiskFlag list
     \<Rightarrow> PainPatientInfo \<Rightarrow> RedFlag list" where
  "generateRedFlags gen assessment recs riskFlags patient =
     (let red1 = (if severity assessment = severe then [severePainFlag (gen 0)] else []);
          red2 = red1 @ [escalatingPainFlag (gen (length red1))];
          hasOpioids = list_ex (\<lambda>r. drugClass r = weak_opioid \<or> drugClass r = strong_opioid) recs;
          red3 =
            (if hasOpioids then
               (let red3a = red2 @ [opioidToxicityFlag (gen (length red2))]
                in if category patient = elderly \<or> num_ge (age patient) (Fin 65)
                   then red3a @ [elderlyOpioidFlag (gen (length red3a))]
                   else red3a)
             else red2);
          hasNSAIDs = list_ex (\<lambda>r. drugClass r = nsaid_non_selective \<or>
                                     drugClass r = nsaid_cox2_selective) recs;
          red4 = (if hasNSAIDs then red3 @ [nsaidFlag (gen (length red3))] else red3);
          red5 = (if painContext assessment = procedural
                  then red4 @ [proceduralFlag (gen (length red4))] else red4);
          contraindicatedFlags = filter (\<lambda>f. level f = contraindicated) riskFlags;
          red6 = (if length contraindicatedFlags > 0
                  then red5 @ [contraindicatedRedFlag (gen (length red5)) contraindicatedFlags]
                  else red5)
      in red6)"

definition shouldIncreaseMonitoring ::
  "DressingPainAssessment \<Rightarrow> RiskFlag list \<Rightarrow> PainPatientInfo \<Rightarrow> bool" where
  "shouldIncreaseMonitoring assessment riskFlags patient =
     (if severity assessment = severe then True
      else if category patient = elderly then True
      else if list_ex (\<lambda>f. flag_category f = ''Respiratory'') riskFlags then True
      else (let highLevelFlags = filter (\<lambda>f. level f = warning \<or> level f = contraindicated) riskFlags
            in if length highLevelFlags \<ge> 2 then True else False))"

section \<open>Notions of the specification\<close>

text \<open>
  The total order of the specification on risk levels,
  \<open>info < caution < warning < contraindicated\<close>, as a rank.
\<close>

fun spec_level_rank :: "RiskLevel \<Rightarrow> nat" where
  "spec_level_rank info = 0"
| "spec_level_rank caution = 1"
| "spec_level_rank warning = 2"
| "spec_level_rank contraindicated = 3"

text \<open>What the specification compares of two risk flags: all fields but the identifier.\<close>

definition flag_content ::
  "RiskFlag \<Rightarrow> RiskLevel \<times> string \<times> string \<times> AnalgesicClass list \<times> string" where
  "flag_content f =
     (level f, flag_category f, message f, affectedDrugClasses f, recommendation f)"

text \<open>
  The specification's "case-insensitive substring": some stretch of the text agrees
  with the word letter by letter, where two characters agree when they are equal or
  are the upper-case and lower-case form of one ASCII letter.
\<close>

definition is_upper :: "char \<Rightarrow> bool" where
  "is_upper c = (65 \<le> (of_char c :: nat) \<and> (of_char c :: nat) \<le> 90)"

definition is_lower :: "char \<Rightarrow> bool" where
  "is_lower c = (97 \<le> (of_char c :: nat) \<and> (of_char c :: nat) \<le> 122)"

definition same_letter :: "char \<Rightarrow> char \<Rightarrow> bool" where
  "same_letter c d =
     (c = d \<or> (is_upper c \<and> (of_char d :: nat) = of_char c + 32)
            \<or> (is_upper d \<and> (of_char c :: nat) = of_char d + 32))"

definition contains_ci :: "string \<Rightarrow> string \<Rightarrow> bool" where
  "contains_ci s w = (\<exists>pre mid post. s = pre @ mid @ post \<and> list_all2 same_letter mid w)"

text \<open>The drug classes of a list of recommendations, in order.\<close>

definition classes :: "AnalgesicRecommendation list \<Rightarrow> AnalgesicClass list" where
  "classes recs = map drugClass recs"

section \<open>Concrete inputs\<close>

definition sample_ids :: idgen where
  "sample_ids k = replicate (Suc k) (CHR ''u'')"

definition sample_patient :: PainPatientInfo where
  "sample_patient =
     \<lparr>patient_id = ''p-1'', initials = ''AB'', age = Fin 40, ageUnit = years,
      weight = None, category = adult, gender = female\<rparr>"

definition sample_assessment :: DressingPainAssessment where
  "sample_assessment =
     \<lparr>scaleUsed = NRS, score = Fin 5, maxScore = Fin 10, severity = moderate,
      painType = nociceptive, painContext = rest, location = ''left leg'',
      description = ''aching''\<rparr>"

definition entry :: "Comorbidity \<Rightarrow> ComorbidityEntry" where
  "entry c = \<lparr>condition = c, entry_severity = None, entry_notes = None\<rparr>"

definition severe_assessment :: DressingPainAssessment where
  "severe_assessment = sample_assessment\<lparr>score := Fin 8, severity := severe\<rparr>"

definition neuropathic_assessment :: DressingPainAssessment where
  "neuropathic_assessment =
     sample_assessment\<lparr>painType := neuropathic,
                         description := ''Burning pain with muscle spasm at night''\<rparr>"

definition spasm_assessment :: DressingPainAssessment where
  "spasm_assessment = sample_assessment\<lparr>description := ''Muscle SPASMS on movement''\<rparr>"

definition procedural_assessment :: DressingPainAssessment where
  "procedural_assessment = sample_assessment\<lparr>painContext := procedural\<rparr>"

definition seizure_flags :: "RiskFlag list" where
  "seizure_flags = generateRiskFlags sample_ids [entry seizure_disorder] sample_patient"

definition wound_dressing_plan :: ProceduralPainPlan where
  "wound_dressing_plan =
     generateProceduralPainPlan wound_dressing ''Wound dressing change''
       procedural_assessment seizure_flags sample_patient"

section \<open>Verified properties\<close>

subsection \<open>Numbers and levels\<close>

lemma num_eq_Fin [simp]: "num_eq s (Fin x) \<longleftrightarrow> s = Fin x"
  by (auto simp: num_eq_def)

lemma indexOf_levels: "indexOf levels l = int (spec_level_rank l)"
  by (cases l) (simp_all add: levels_def)

lemma spec_level_rank_zero: "spec_level_rank l = 0 \<longleftrightarrow> l = info"
  by (cases l) simp_all

subsection \<open>Severity from the score\<close>

text \<open>
  Claim C10. \<open>getPainSeverity\<close> returns \<open>none\<close> only for the score 0: every negative
  score and every score strictly between 0 and 1 is classified \<open>mild\<close>, so a score below
  the documented range is mild pain, neither \<open>none\<close> nor an error.
\<close>

theorem getPainSeverity_none_only_at_zero:
  "(getPainSeverity s = none \<longleftrightarrow> s = Fin 0) \<and>
   (num_lt s (Fin 0) \<longrightarrow> getPainSeverity s = mild) \<and>
   (num_lt (Fin 0) s \<and> num_lt s (Fin 1) \<longrightarrow> getPainSeverity s = mild)"
  by (cases s) (auto simp: getPainSeverity_def)

theorem getPainSeverity_none_only_at_zero_witness:
  "num_lt (Fin (-1)) (Fin 0) \<and> getPainSeverity (Fin (-1)) = mild \<and>
   num_lt (Fin 0) (Fin (1/2)) \<and> num_lt (Fin (1/2)) (Fin 1) \<and>
   getPainSeverity (Fin (1/2)) = mild \<and>
   getPainSeverity (Fin 0) = none \<and> getPainSeverity NegInf = mild"
proof -
  have h1: "num_lt (Fin (-1)) (Fin 0)" by simp
  have h2: "num_lt (Fin 0) (Fin (1/2)) \<and> num_lt (Fin (1/2)) (Fin 1)" by simp
  have h3: "num_lt NegInf (Fin 0)" by simp
  from h1 h2 h3 getPainSeverity_none_only_at_zero [of "Fin (-1)"]
    getPainSeverity_none_only_at_zero [of "Fin (1/2)"]
    getPainSeverity_none_only_at_zero [of "Fin 0"]
    getPainSeverity_none_only_at_zero [of NegInf]
  show ?thesis by blast
qed

subsection \<open>Safety of a drug class\<close>

lemma foldl_higherLevel:
  "foldl higherLevel h fs \<in> insert h (level ` set fs) \<and>
   spec_level_rank h \<le> spec_level_rank (foldl higherLevel h fs) \<and>
   (\<forall>f \<in> set fs. spec_level_rank (level f) \<le> spec_level_rank (foldl higherLevel h fs))"
proof (induction fs arbitrary: h)
  case Nil
  show ?case by simp
next
  case (Cons f fs)
  from Cons.IH [of "higherLevel h f"] show ?case
    by (auto simp: higherLevel_def indexOf_levels split: if_splits)
qed

text \<open>
  Claim C2. For every drug class \<open>c\<close> and flag list \<open>fs\<close>, the level that
  \<open>checkDrugClassSafety c fs\<close> returns is the maximum, in the order
  \<open>info < caution < warning < contraindicated\<close>, of the levels of the flags of \<open>fs\<close>
  whose affected classes include \<open>c\<close> (it is the level of one of them and no lower than
  any of them), and \<open>info\<close> when no flag matches; \<open>safe\<close> says that this level is not
  \<open>contraindicated\<close>; \<open>warnings\<close> are the messages of exactly the matching flags, in
  their order.
\<close>

theorem checkDrugClassSafety_highest_level:
  "(let rel = filter (\<lambda>f. c \<in> set (affectedDrugClasses f)) fs;
        r = checkDrugClassSafety c fs
    in (rel = [] \<longrightarrow> safety_level r = info) \<and>
       (rel \<noteq> [] \<longrightarrow> safety_level r \<in> level ` set rel) \<and>
       (\<forall>f \<in> set rel. spec_level_rank (level f) \<le> spec_level_rank (safety_level r)) \<and>
       safe r = (safety_level r \<noteq> contraindicated) \<and>
       warnings r = map message rel)"
proof -
  define rel where "rel = filter (\<lambda>f. c \<in> set (affectedDrugClasses f)) fs"
  show ?thesis
  proof (cases "rel = []")
    case True
    then show ?thesis
      by (simp add: checkDrugClassSafety_def rel_def [symmetric] Let_def)
  next
    case False
    have r: "checkDrugClassSafety c fs =
          \<lparr>safe = (foldl higherLevel info rel \<noteq> contraindicated),
           safety_level = foldl higherLevel info rel,
           warnings = map message rel\<rparr>"
      using False by (simp add: checkDrugClassSafety_def rel_def [symmetric] Let_def)
    from foldl_higherLevel [of info rel]
    have mem: "foldl higherLevel info rel \<in> insert info (level ` set rel)"
      and ub: "\<forall>f \<in> set rel.
                 spec_level_rank (level f) \<le> spec_level_rank (foldl higherLevel info rel)"
      by blast+
    have "foldl higherLevel info rel \<in> level ` set rel"
    proof (cases "foldl higherLevel info rel = info")
      case True
      from False obtain f where f: "f \<in> set rel" by (cases rel) auto
      with ub True have "spec_level_rank (level f) = 0" by auto
      then have "level f = info" by (simp add: spec_level_rank_zero)
      with f True show ?thesis by force
    next
      case False
      with mem show ?thesis by blast
    qed
    with ub r False show ?thesis
      by (simp add: rel_def [symmetric] Let_def)
  qed
qed

theorem checkDrugClassSafety_highest_level_witness:
  "filter (\<lambda>f. weak_opioid \<in> set (affectedDrugClasses f))
      [elderlyFlag ''a'', neonateFlag ''b'', pediatricFlag ''c''] \<noteq> [] \<and>
   safety_level (checkDrugClassSafety weak_opioid
      [elderlyFlag ''a'', neonateFlag ''b'', pediatricFlag ''c'']) = warning \<and>
   safe (checkDrugClassSafety weak_opioid
      [elderlyFlag ''a'', neonateFlag ''b'', pediatricFlag ''c'']) \<and>
   warnings (checkDrugClassSafety nsaid_cox2_selective
      [elderlyFlag ''a'', neonateFlag ''b'', pediatricFlag ''c'']) =
     [''Elderly patient - consider age-related pharmacokinetic changes''] \<and>
   safety_level (checkDrugClassSafety ketamine
      [elderlyFlag ''a'', neonateFlag ''b'', pediatricFlag ''c'']) = info"
  using checkDrugClassSafety_highest_level
          [of weak_opioid "[elderlyFlag ''a'', neonateFlag ''b'', pediatricFlag ''c'']"]
        checkDrugClassSafety_highest_level
          [of nsaid_cox2_selective "[elderlyFlag ''a'', neonateFlag ''b'', pediatricFlag ''c'']"]
        checkDrugClassSafety_highest_level
          [of ketamine "[elderlyFlag ''a'', neonateFlag ''b'', pediatricFlag ''c'']"]
  by (simp add: Let_def elderlyFlag_def neonateFlag_def pediatricFlag_def
        checkDrugClassSafety_def higherLevel_def levels_def)

subsection \<open>Risk flags\<close>

lemma evaluateRules_content:
  "map flag_content fl1 = map flag_content fl2 \<Longrightarrow>
   map flag_content (evaluateRules gen1 rules pc p fl1) =
   map flag_content (evaluateRules gen2 rules pc p fl2)"
proof (induction rules arbitrary: fl1 fl2)
  case Nil
  then show ?case by simp
next
  case (Cons rule rules)
  show ?case
  proof (cases "conditionsMet rule pc p")
    case True
    have "map flag_content (fl1 @ [ruleFlag (gen1 (length fl1)) rule]) =
          map flag_content (fl2 @ [ruleFlag (gen2 (length fl2)) rule])"
      by (simp add: Cons.prems flag_content_def ruleFlag_def)
    from Cons.IH [OF this] True show ?thesis by simp
  next
    case False
    with Cons.IH [OF Cons.prems] show ?thesis by simp
  qed
qed

text \<open>
  Claim C8. Two runs of \<open>generateRiskFlags\<close> on the same comorbidity entries and the same
  patient, whatever identifiers each run draws, return lists of the same length whose
  elements agree pairwise, in order, on level, category, message, affected drug classes
  and recommendation.
\<close>

theorem generateRiskFlags_deterministic_up_to_ids:
  "length (generateRiskFlags gen1 cs p) = length (generateRiskFlags gen2 cs p) \<and>
   list_all2 (\<lambda>f g. flag_content f = flag_content g)
     (generateRiskFlags gen1 cs p) (generateRiskFlags gen2 cs p)"
proof -
  have "map flag_content (generateRiskFlags gen1 cs p) =
        map flag_content (generateRiskFlags gen2 cs p)"
    using evaluateRules_content [of "[]" "[]" gen1 RISK_RULES "map condition cs" p gen2]
    by (simp add: generateRiskFlags_def Let_def flag_content_def elderlyFlag_def
        pediatricFlag_def neonateFlag_def)
  then show ?thesis
    by (simp add: list_all2_conv_all_nth list_eq_iff_nth_eq)
qed

subsection \<open>Monitoring\<close>

text \<open>
  Claim C7. \<open>shouldIncreaseMonitoring\<close> is true exactly when the assessed severity is
  severe, or the patient's category is elderly, or some risk flag has the category
  \<open>Respiratory\<close>, or at least two risk flags have level warning or contraindicated.
  It is a function of its three arguments alone: it draws no identifier and returns
  nothing but the boolean.
\<close>

theorem shouldIncreaseMonitoring_iff:
  "shouldIncreaseMonitoring a fs p \<longleftrightarrow>
     severity a = severe \<or> category p = elderly \<or>
     (\<exists>f \<in> set fs. flag_category f = ''Respiratory'') \<or>
     2 \<le> length (filter (\<lambda>f. level f \<in> {warning, contraindicated}) fs)"
  by (simp add: shouldIncreaseMonitoring_def list_ex_iff Let_def)

theorem shouldIncreaseMonitoring_iff_witness:
  "\<not> shouldIncreaseMonitoring sample_assessment [neonateFlag ''a''] sample_patient \<and>
   shouldIncreaseMonitoring sample_assessment [neonateFlag ''a'', neonateFlag ''b''] sample_patient \<and>
   shouldIncreaseMonitoring (sample_assessment\<lparr>severity := severe\<rparr>) [] sample_patient \<and>
   shouldIncreaseMonitoring sample_assessment [] (sample_patient\<lparr>category := elderly\<rparr>)"
  using shouldIncreaseMonitoring_iff [of sample_assessment "[neonateFlag ''a'']" sample_patient]
        shouldIncreaseMonitoring_iff
          [of sample_assessment "[neonateFlag ''a'', neonateFlag ''b'']" sample_patient]
        shouldIncreaseMonitoring_iff [of "sample_assessment\<lparr>severity := severe\<rparr>" "[]" sample_patient]
        shouldIncreaseMonitoring_iff
          [of sample_assessment "[]" "sample_patient\<lparr>category := elderly\<rparr>"]
  by (simp add: sample_assessment_def sample_patient_def neonateFlag_def)

subsection \<open>Evaluating the rule table\<close>

lemma evaluateRules_peptic_ulcer:
  "evaluateRules gen RISK_RULES [peptic_ulcer] p [] = [ruleFlag (gen 0) (RISK_RULES ! 0)]"
  by (simp add: RISK_RULES_def conditionsMet_def)

lemma evaluateRules_seizure_disorder:
  "evaluateRules gen RISK_RULES [seizure_disorder] p [] = [ruleFlag (gen 0) (RISK_RULES ! 16)]"
  by (simp add: RISK_RULES_def conditionsMet_def)

lemma evaluateRules_no_condition:
  "evaluateRules gen RISK_RULES [] p [] = []"
  by (simp add: RISK_RULES_def conditionsMet_def)

lemma gi_rule_fields:
  "rule_level (RISK_RULES ! 0) = contraindicated"
  "rule_category (RISK_RULES ! 0) = ''Gastrointestinal''"
  "rule_affectedDrugClasses (RISK_RULES ! 0) = [nsaid_non_selective, nsaid_cox2_selective]"
  by (simp_all add: RISK_RULES_def)

lemma seizure_rule_fields:
  "rule_level (RISK_RULES ! 16) = contraindicated"
  "rule_affectedDrugClasses (RISK_RULES ! 16) = [weak_opioid]"
  by (simp_all add: RISK_RULES_def)

subsection \<open>Contraindicated classes\<close>

lemma set_foldl_set_add: "set (foldl set_add acc cs) = set acc \<union> set cs"
  by (induction cs arbitrary: acc) (auto simp: set_add_def)

lemma set_foldl_contraindicated:
  "set (foldl (\<lambda>acc flag. if level flag = contraindicated
                            then foldl set_add acc (affectedDrugClasses flag) else acc) acc fs) =
   set acc \<union> (\<Union>f \<in> {f \<in> set fs. level f = contraindicated}. set (affectedDrugClasses f))"
  by (induction fs arbitrary: acc) (auto simp: set_foldl_set_add)

lemma set_getContraindicatedClasses:
  "set (getContraindicatedClasses fs) =
   (\<Union>f \<in> {f \<in> set fs. level f = contraindicated}. set (affectedDrugClasses f))"
  by (simp add: getContraindicatedClasses_def set_foldl_contraindicated)

subsection \<open>Classes of the recommendations\<close>

lemma drugClass_literals [simp]:
  "drugClass (paracetamolRecommendation fs) = paracetamol"
  "drugClass (nsaidRecommendation fs) = nsaid_non_selective"
  "drugClass (weakOpioidRecommendation fs) = weak_opioid"
  "drugClass (strongOpioidRecommendation fs) = strong_opioid"
  "drugClass anticonvulsantRecommendation = adjuvant_anticonvulsant"
  "drugClass antidepressantRecommendation = adjuvant_antidepressant"
  "drugClass topicalRecommendation = topical_analgesic"
  "drugClass muscleRelaxantRecommendation = adjuvant_muscle_relaxant"
  "drugClass preEmptiveParacetamol = paracetamol"
  "drugClass (preEmptiveOpioid s) = (if s = severe then strong_opioid else weak_opioid)"
  by (simp_all add: paracetamolRecommendation_def nsaidRecommendation_def
      weakOpioidRecommendation_def strongOpioidRecommendation_def
      anticonvulsantRecommendation_def antidepressantRecommendation_def
      topicalRecommendation_def muscleRelaxantRecommendation_def
      preEmptiveParacetamol_def preEmptiveOpioid_def Let_def)

lemma primary_class_cases:
  assumes "r \<in> set (primaryRecommendations (generateAnalgesicRecommendations a fs p))"
  shows "drugClass r = paracetamol \<or>
         (drugClass r = nsaid_non_selective \<and>
          nsaid_non_selective \<notin> set (getContraindicatedClasses fs)) \<or>
         drugClass r = weak_opioid \<or> drugClass r = strong_opioid"
  using assms
  by (auto simp: generateAnalgesicRecommendations_def Let_def split: if_splits)

lemma adjunct_class_cases:
  assumes "r \<in> set (adjunctRecommendations (generateAnalgesicRecommendations a fs p))"
  shows "drugClass r = adjuvant_anticonvulsant \<or> drugClass r = adjuvant_antidepressant \<or>
         drugClass r = topical_analgesic \<or> drugClass r = adjuvant_muscle_relaxant"
  using assms
  by (auto simp: generateAnalgesicRecommendations_def Let_def split: if_splits)

lemma generateRiskFlags_peptic_ulcer:
  assumes "map condition cs = [peptic_ulcer]" and "\<not> num_ge (age p) (Fin 65)"
  shows "generateRiskFlags gen cs p =
           ruleFlag (gen 0) (RISK_RULES ! 0) #
           (case category p of
              adult \<Rightarrow> []
            | pediatric \<Rightarrow> [pediatricFlag (gen 1)]
            | elderly \<Rightarrow> [elderlyFlag (gen 1)]
            | neonate \<Rightarrow> [neonateFlag (gen 1)])"
  unfolding generateRiskFlags_def Let_def assms(1) evaluateRules_peptic_ulcer
  using assms(2) by (cases "category p") simp_all

lemma age_flag_levels [simp]:
  "level (elderlyFlag i) = caution" "level (pediatricFlag i) = info"
  "level (neonateFlag i) = warning"
  by (simp_all add: elderlyFlag_def pediatricFlag_def neonateFlag_def)

text \<open>
  Claim C1 (scenario A). For the single comorbidity peptic ulcer and a patient aged 40,
  \<open>generateRiskFlags\<close> returns a flag of level contraindicated and category
  \<open>Gastrointestinal\<close> whose affected classes are the two NSAID classes, and it is the
  only contraindicated flag; for every pain assessment evaluated with these flags,
  neither the primary nor the adjunct recommendations contain an NSAID class.
\<close>

theorem scenario_peptic_ulcer_excludes_nsaids:
  assumes "map condition cs = [peptic_ulcer]" and "age p = Fin 40"
  shows "(\<exists>f \<in> set (generateRiskFlags gen cs p).
            level f = contraindicated \<and> flag_category f = ''Gastrointestinal'' \<and>
            set (affectedDrugClasses f) = {nsaid_non_selective, nsaid_cox2_selective}) \<and>
         length (filter (\<lambda>f. level f = contraindicated) (generateRiskFlags gen cs p)) = 1 \<and>
         (\<forall>r \<in> set (primaryRecommendations
                      (generateAnalgesicRecommendations a (generateRiskFlags gen cs p) p)) \<union>
                 set (adjunctRecommendations
                      (generateAnalgesicRecommendations a (generateRiskFlags gen cs p) p)).
            drugClass r \<noteq> nsaid_non_selective \<and> drugClass r \<noteq> nsaid_cox2_selective)"
proof -
  define gi where "gi = ruleFlag (gen 0) (RISK_RULES ! 0)"
  define flags where "flags = generateRiskFlags gen cs p"
  have young: "\<not> num_ge (age p) (Fin 65)"
    using assms(2) by (simp add: num_ge_def)
  have gi: "level gi = contraindicated" "flag_category gi = ''Gastrointestinal''"
    "affectedDrugClasses gi = [nsaid_non_selective, nsaid_cox2_selective]"
    by (simp_all add: gi_def ruleFlag_def gi_rule_fields)
  obtain rest where flags: "flags = gi # rest"
    and rest: "\<forall>f \<in> set rest. level f \<noteq> contraindicated"
    unfolding flags_def gi_def generateRiskFlags_peptic_ulcer [OF assms(1) young]
    by (cases "category p") simp_all
  have first: "\<exists>f \<in> set flags.
            level f = contraindicated \<and> flag_category f = ''Gastrointestinal'' \<and>
            set (affectedDrugClasses f) = {nsaid_non_selective, nsaid_cox2_selective}"
    unfolding flags using gi by simp
  have "filter (\<lambda>f. level f = contraindicated) rest = []"
    using rest by (simp add: filter_empty_conv)
  then have one: "length (filter (\<lambda>f. level f = contraindicated) flags) = 1"
    unfolding flags using gi(1) by simp
  have contra: "nsaid_non_selective \<in> set (getContraindicatedClasses flags)"
    unfolding set_getContraindicatedClasses flags using gi by auto
  have third: "\<forall>r \<in> set (primaryRecommendations (generateAnalgesicRecommendations a flags p)) \<union>
                 set (adjunctRecommendations (generateAnalgesicRecommendations a flags p)).
            drugClass r \<noteq> nsaid_non_selective \<and> drugClass r \<noteq> nsaid_cox2_selective"
  proof
    fix r
    assume "r \<in> set (primaryRecommendations (generateAnalgesicRecommendations a flags p)) \<union>
                 set (adjunctRecommendations (generateAnalgesicRecommendations a flags p))"
    then consider
        "r \<in> set (primaryRecommendations (generateAnalgesicRecommendations a flags p))"
      | "r \<in> set (adjunctRecommendations (generateAnalgesicRecommendations a flags p))"
      by blast
    then show "drugClass r \<noteq> nsaid_non_selective \<and> drugClass r \<noteq> nsaid_cox2_selective"
    proof cases
      case 1
      from primary_class_cases [OF 1] contra show ?thesis by auto
    next
      case 2
      from adjunct_class_cases [OF 2] show ?thesis by auto
    qed
  qed
  from first one third show ?thesis unfolding flags_def by blast
qed

theorem scenario_peptic_ulcer_excludes_nsaids_witness:
  "map condition [entry peptic_ulcer] = [peptic_ulcer] \<and> age sample_patient = Fin 40 \<and>
   length (filter (\<lambda>f. level f = contraindicated)
             (generateRiskFlags sample_ids [entry peptic_ulcer] sample_patient)) = 1 \<and>
   nsaid_non_selective \<notin> set (classes (primaryRecommendations
      (generateAnalgesicRecommendations sample_assessment
         (generateRiskFlags sample_ids [entry peptic_ulcer] sample_patient) sample_patient))) \<and>
   nsaid_cox2_selective \<notin> set (classes (primaryRecommendations
      (generateAnalgesicRecommendations sample_assessment
         (generateRiskFlags sample_ids [entry peptic_ulcer] sample_patient) sample_patient))) \<and>
   nsaid_non_selective \<notin> set (classes (adjunctRecommendations
      (generateAnalgesicRecommendations sample_assessment
         (generateRiskFlags sample_ids [entry peptic_ulcer] sample_patient) sample_patient))) \<and>
   nsaid_cox2_selective \<notin> set (classes (adjunctRecommendations
      (generateAnalgesicRecommendations sample_assessment
         (generateRiskFlags sample_ids [entry peptic_ulcer] sample_patient) sample_patient)))"
proof -
  define flags where "flags = generateRiskFlags sample_ids [entry peptic_ulcer] sample_patient"
  define plan where "plan = generateAnalgesicRecommendations sample_assessment flags sample_patient"
  have h1: "map condition [entry peptic_ulcer] = [peptic_ulcer]"
    by (simp add: entry_def)
  have h2: "age sample_patient = Fin 40"
    by (simp add: sample_patient_def)
  note t = scenario_peptic_ulcer_excludes_nsaids [OF h1 h2, of sample_ids sample_assessment,
      folded flags_def, folded plan_def]
  from t have one: "length (filter (\<lambda>f. level f = contraindicated) flags) = 1"
    by (elim conjE)
  from t have no: "\<forall>r \<in> set (primaryRecommendations plan) \<union> set (adjunctRecommendations plan).
      drugClass r \<noteq> nsaid_non_selective \<and> drugClass r \<noteq> nsaid_cox2_selective"
    by (elim conjE)
  have "nsaid_non_selective \<notin> set (classes (primaryRecommendations plan))"
    "nsaid_cox2_selective \<notin> set (classes (primaryRecommendations plan))"
    "nsaid_non_selective \<notin> set (classes (adjunctRecommendations plan))"
    "nsaid_cox2_selective \<notin> set (classes (adjunctRecommendations plan))"
    using no by (auto simp: classes_def ball_Un)
  with one h1 h2 show ?thesis
    unfolding flags_def plan_def by (intro conjI)
qed

subsection \<open>The WHO ladder\<close>

lemma primary_prefix:
  "getWHOStep s1 \<le> getWHOStep s2 \<Longrightarrow>
   prefix (primaryRecommendations (generateAnalgesicRecommendations (a\<lparr>severity := s1\<rparr>) fs p))
          (primaryRecommendations (generateAnalgesicRecommendations (a\<lparr>severity := s2\<rparr>) fs p))"
  by (cases s1; cases s2) (simp_all add: generateAnalgesicRecommendations_def Let_def)

lemma classes_prefix: "prefix xs ys \<Longrightarrow> set (classes xs) \<subseteq> set (classes ys)"
  by (auto simp: classes_def prefix_def)

text \<open>
  Claim C3. With the same risk flags, patient and assessment otherwise, the drug
  classes of the primary recommendations for severity severe include those for
  severity moderate; more generally a severity with a higher WHO step only adds to the
  primary list of a lower one: the lower list is an initial segment of the higher.
\<close>

theorem who_ladder_cumulative:
  "set (classes (primaryRecommendations
          (generateAnalgesicRecommendations (a\<lparr>severity := moderate\<rparr>) fs p))) \<subseteq>
   set (classes (primaryRecommendations
          (generateAnalgesicRecommendations (a\<lparr>severity := severe\<rparr>) fs p))) \<and>
   (getWHOStep s1 \<le> getWHOStep s2 \<longrightarrow>
      prefix (primaryRecommendations (generateAnalgesicRecommendations (a\<lparr>severity := s1\<rparr>) fs p))
             (primaryRecommendations (generateAnalgesicRecommendations (a\<lparr>severity := s2\<rparr>) fs p)) \<and>
      set (classes (primaryRecommendations
             (generateAnalgesicRecommendations (a\<lparr>severity := s1\<rparr>) fs p))) \<subseteq>
      set (classes (primaryRecommendations
             (generateAnalgesicRecommendations (a\<lparr>severity := s2\<rparr>) fs p))))"
proof -
  have "getWHOStep moderate \<le> getWHOStep severe" by simp
  from primary_prefix [OF this] have "set (classes (primaryRecommendations
          (generateAnalgesicRecommendations (a\<lparr>severity := moderate\<rparr>) fs p))) \<subseteq>
      set (classes (primaryRecommendations
          (generateAnalgesicRecommendations (a\<lparr>severity := severe\<rparr>) fs p)))"
    by (rule classes_prefix)
  then show ?thesis
    using primary_prefix [of s1 s2 a fs p] by (simp add: classes_prefix)
qed

theorem who_ladder_cumulative_witness:
  "getWHOStep mild \<le> getWHOStep severe \<and>
   classes (primaryRecommendations
      (generateAnalgesicRecommendations (sample_assessment\<lparr>severity := mild\<rparr>) [] sample_patient)) =
     [paracetamol, nsaid_non_selective] \<and>
   classes (primaryRecommendations
      (generateAnalgesicRecommendations (sample_assessment\<lparr>severity := severe\<rparr>) [] sample_patient)) =
     [paracetamol, nsaid_non_selective, weak_opioid, strong_opioid] \<and>
   prefix (primaryRecommendations
      (generateAnalgesicRecommendations (sample_assessment\<lparr>severity := mild\<rparr>) [] sample_patient))
     (primaryRecommendations
      (generateAnalgesicRecommendations (sample_assessment\<lparr>severity := severe\<rparr>) [] sample_patient))"
proof -
  have h: "getWHOStep mild \<le> getWHOStep severe" by simp
  have c1: "classes (primaryRecommendations
      (generateAnalgesicRecommendations (sample_assessment\<lparr>severity := mild\<rparr>) [] sample_patient)) =
     [paracetamol, nsaid_non_selective]"
    by (simp add: generateAnalgesicRecommendations_def Let_def classes_def
        getContraindicatedClasses_def sample_assessment_def)
  have c2: "classes (primaryRecommendations
      (generateAnalgesicRecommendations (sample_assessment\<lparr>severity := severe\<rparr>) [] sample_patient)) =
     [paracetamol, nsaid_non_selective, weak_opioid, strong_opioid]"
    by (simp add: generateAnalgesicRecommendations_def Let_def classes_def
        getContraindicatedClasses_def sample_assessment_def)
  from who_ladder_cumulative [of sample_assessment "[]" sample_patient mild severe] h c1 c2
  show ?thesis by blast
qed

subsection \<open>Pre-emptive analgesia of the procedural plan\<close>

lemma generateRiskFlags_seizure_disorder:
  "seizure_flags = [ruleFlag (sample_ids 0) (RISK_RULES ! 16)]"
  by (simp add: seizure_flags_def generateRiskFlags_def Let_def entry_def
      evaluateRules_seizure_disorder sample_patient_def num_ge_def)

lemma contraindicated_seizure_flags:
  "getContraindicatedClasses seizure_flags = [weak_opioid]"
  by (simp add: generateRiskFlags_seizure_disorder getContraindicatedClasses_def ruleFlag_def
      seizure_rule_fields set_add_def)

text \<open>What the gate of the pre-emptive opioid tests, for a procedure of moderate pain.\<close>

lemma preEmptive_moderate_gate:
  assumes "anticipatedLevel pt = moderate"
  shows "classes (recommendations (preEmptiveAnalgesia
            (generateProceduralPainPlan pt d a fs p))) =
         (if strong_opioid \<in> set (getContraindicatedClasses fs)
          then [paracetamol] else [paracetamol, weak_opioid])"
  using assms by (simp add: generateProceduralPainPlan_def Let_def classes_def)

text \<open>
  Claim C4. For a procedure of moderate anticipated pain the pre-emptive recommendations
  should contain paracetamol always and the weak opioid exactly when weak opioids are
  not contraindicated. The code tests the strong opioid instead: for a patient with a
  seizure disorder, whose only contraindicated class is the weak opioid, the plan of a
  wound dressing recommends the weak opioid all the same, while the ladder of
  \<open>generateAnalgesicRecommendations\<close> leaves it out for the same flags.
\<close>

theorem procedural_plan_recommends_contraindicated_weak_opioid:
  "anticipatedPainLevel wound_dressing_plan = moderate \<and>
   getContraindicatedClasses seizure_flags = [weak_opioid] \<and>
   classes (recommendations (preEmptiveAnalgesia wound_dressing_plan)) =
     [paracetamol, weak_opioid] \<and>
   recommendations (preEmptiveAnalgesia wound_dressing_plan) =
     [preEmptiveParacetamol, preEmptiveOpioid moderate] \<and>
   suitability (preEmptiveOpioid moderate) = suit_recommended \<and>
   classes (primaryRecommendations
      (generateAnalgesicRecommendations procedural_assessment seizure_flags sample_patient)) =
     [paracetamol, nsaid_non_selective]"
  by (simp add: wound_dressing_plan_def generateProceduralPainPlan_def Let_def classes_def
      contraindicated_seizure_flags anticipatedLevel_def preEmptiveOpioid_def
      generateAnalgesicRecommendations_def procedural_assessment_def sample_assessment_def)

subsection \<open>Red flags\<close>

text \<open>
  Claim C5, as stated, fails: for a severe assessment the first red flag is the
  severe-pain warning, and the escalating-pain flag comes second.
\<close>

theorem generateRedFlags_escalating_first_counterexample:
  "generateRedFlags sample_ids severe_assessment [] [] sample_patient =
     [severePainFlag (sample_ids 0), escalatingPainFlag (sample_ids 1)] \<and>
   title (generateRedFlags sample_ids severe_assessment [] [] sample_patient ! 0) = ''Severe Pain'' \<and>
   redflag_severity (generateRedFlags sample_ids severe_assessment [] [] sample_patient ! 0) =
     red_warning \<and>
   generateRedFlags sample_ids severe_assessment [] [] sample_patient ! 0 \<noteq>
     escalatingPainFlag (sample_ids 0)"
  by (simp add: generateRedFlags_def Let_def severe_assessment_def sample_assessment_def
      severePainFlag_def escalatingPainFlag_def)

text \<open>
  Claim C5, amended. \<open>generateRedFlags\<close> always emits the critical escalating-pain flag,
  for every assessment, recommendation list, risk-flag list and patient: it is the
  first element of the result when the severity is not severe, and the second element,
  right after the severe-pain warning flag, when the severity is severe.
\<close>

theorem generateRedFlags_escalating_position:
  "(severity a \<noteq> severe \<longrightarrow>
      (\<exists>rest. generateRedFlags gen a recs fs p = escalatingPainFlag (gen 0) # rest)) \<and>
   (severity a = severe \<longrightarrow>
      (\<exists>rest. generateRedFlags gen a recs fs p =
                severePainFlag (gen 0) # escalatingPainFlag (gen 1) # rest)) \<and>
   redflag_severity (escalatingPainFlag i) = critical \<and>
   redflag_severity (severePainFlag i) = red_warning"
proof -
  have "severity a \<noteq> severe \<longrightarrow>
      (\<exists>rest. generateRedFlags gen a recs fs p = escalatingPainFlag (gen 0) # rest)"
    by (simp add: generateRedFlags_def Let_def)
  moreover have "severity a = severe \<longrightarrow>
      (\<exists>rest. generateRedFlags gen a recs fs p =
                severePainFlag (gen 0) # escalatingPainFlag (gen 1) # rest)"
    by (simp add: generateRedFlags_def Let_def)
  moreover have "redflag_severity (escalatingPainFlag i) = critical"
    by (simp add: escalatingPainFlag_def)
  moreover have "redflag_severity (severePainFlag i) = red_warning"
    by (simp add: severePainFlag_def)
  ultimately show ?thesis by blast
qed

theorem generateRedFlags_escalating_position_witness:
  "severity sample_assessment \<noteq> severe \<and>
   (\<exists>rest. generateRedFlags sample_ids sample_assessment [] [] sample_patient =
             escalatingPainFlag (sample_ids 0) # rest) \<and>
   severity severe_assessment = severe \<and>
   (\<exists>rest. generateRedFlags sample_ids severe_assessment [] [] sample_patient =
             severePainFlag (sample_ids 0) # escalatingPainFlag (sample_ids 1) # rest)"
proof -
  have h1: "severity sample_assessment \<noteq> severe"
    by (simp add: sample_assessment_def)
  have h2: "severity severe_assessment = severe"
    by (simp add: severe_assessment_def)
  from generateRedFlags_escalating_position [of sample_assessment sample_ids "[]" "[]" sample_patient]
    generateRedFlags_escalating_position [of severe_assessment sample_ids "[]" "[]" sample_patient]
    h1 h2
  show ?thesis by blast
qed

subsection \<open>Absent inputs\<close>

text \<open>
  Claim C9. With no recommendation, no comorbidity and an adult patient younger than 65,
  every block of the monitoring plan has \<open>required = false\<close> and \<open>otherMonitoring\<close> is
  empty; if moreover the assessment is neither severe nor procedural and no risk flag is
  contraindicated, the only red flag is the critical escalating-pain flag.
\<close>

theorem no_inputs_minimal_plan:
  assumes "category p = adult" and "num_lt (age p) (Fin 65)"
  shows "\<not> sed_required (sedationMonitoring (generateMonitoringPlan [] fs p [])) \<and>
         \<not> resp_required (respiratoryMonitoring (generateMonitoringPlan [] fs p [])) \<and>
         \<not> cv_required (cardiovascularMonitoring (generateMonitoringPlan [] fs p [])) \<and>
         \<not> renal_required (renalMonitoring (generateMonitoringPlan [] fs p [])) \<and>
         \<not> gi_required (giProtection (generateMonitoringPlan [] fs p [])) \<and>
         otherMonitoring (generateMonitoringPlan [] fs p []) = [] \<and>
         (severity a \<noteq> severe \<and> painContext a \<noteq> procedural \<and>
          (\<forall>f \<in> set fs. level f \<noteq> contraindicated) \<longrightarrow>
            generateRedFlags gen a [] fs p = [escalatingPainFlag (gen 0)] \<and>
            redflag_severity (escalatingPainFlag (gen 0)) = critical)"
  by (simp add: generateMonitoringPlan_def generateRedFlags_def Let_def filter_empty_conv
      escalatingPainFlag_def)

theorem no_inputs_minimal_plan_witness:
  "category sample_patient = adult \<and> num_lt (age sample_patient) (Fin 65) \<and>
   severity sample_assessment \<noteq> severe \<and> painContext sample_assessment \<noteq> procedural \<and>
   level (pediatricFlag ''f-1'') \<noteq> contraindicated \<and>
   \<not> sed_required (sedationMonitoring
        (generateMonitoringPlan [] [pediatricFlag ''f-1''] sample_patient [])) \<and>
   otherMonitoring (generateMonitoringPlan [] [pediatricFlag ''f-1''] sample_patient []) = [] \<and>
   generateRedFlags sample_ids sample_assessment [] [pediatricFlag ''f-1''] sample_patient =
     [escalatingPainFlag (sample_ids 0)]"
proof -
  have h1: "category sample_patient = adult" by (simp add: sample_patient_def)
  have h2: "num_lt (age sample_patient) (Fin 65)" by (simp add: sample_patient_def)
  have h3: "severity sample_assessment \<noteq> severe \<and> painContext sample_assessment \<noteq> procedural"
    by (simp add: sample_assessment_def)
  have h4: "\<forall>f \<in> set [pediatricFlag ''f-1'']. level f \<noteq> contraindicated" by simp
  from no_inputs_minimal_plan [OF h1 h2, of "[pediatricFlag ''f-1'']" sample_assessment sample_ids]
    h1 h2 h3 h4
  show ?thesis by simp
qed

subsection \<open>Searching a description\<close>

lemma lower_char_eq_iff:
  assumes "is_lower d"
  shows "lower_char c = d \<longleftrightarrow> same_letter c d"
proof (cases "is_upper c")
  case True
  then have "of_char (lower_char c) = (of_char c :: nat) + 32"
    by (simp add: lower_char_def is_upper_def Let_def)
  moreover have "c \<noteq> d"
    using True assms by (auto simp: is_upper_def is_lower_def)
  moreover have "\<not> is_upper d"
    using assms by (auto simp: is_upper_def is_lower_def)
  moreover have "lower_char c = d \<longleftrightarrow> (of_char (lower_char c) :: nat) = of_char d"
    by simp
  ultimately show ?thesis
    using True by (auto simp: same_letter_def)
next
  case False
  moreover have "\<not> is_upper d"
    using assms by (auto simp: is_upper_def is_lower_def)
  ultimately show ?thesis
    by (auto simp: same_letter_def lower_char_def is_upper_def Let_def)
qed

lemma map_lower_eq_iff:
  "list_all is_lower w \<Longrightarrow> map lower_char mid = w \<longleftrightarrow> list_all2 same_letter mid w"
proof (induction mid arbitrary: w)
  case Nil
  then show ?case by auto
next
  case (Cons c cs)
  then show ?case by (cases w) (auto simp: lower_char_eq_iff)
qed

lemma includes_str_iff: "includes_str h n \<longleftrightarrow> (\<exists>pre post. h = pre @ n @ post)"
proof (induction h)
  case Nil
  then show ?case by auto
next
  case (Cons c cs)
  show ?case
  proof
    assume "includes_str (c # cs) n"
    then consider "prefix n (c # cs)" | "includes_str cs n" by auto
    then show "\<exists>pre post. c # cs = pre @ n @ post"
    proof cases
      case 1
      then obtain post where "c # cs = n @ post" by (auto simp: prefix_def)
      then have "c # cs = [] @ n @ post" by simp
      then show ?thesis by blast
    next
      case 2
      with Cons.IH obtain pre post where "cs = pre @ n @ post" by blast
      then have "c # cs = (c # pre) @ n @ post" by simp
      then show ?thesis by blast
    qed
  next
    assume "\<exists>pre post. c # cs = pre @ n @ post"
    then obtain pre post where e: "c # cs = pre @ n @ post" by blast
    show "includes_str (c # cs) n"
    proof (cases pre)
      case Nil
      with e have "prefix n (c # cs)" by (simp add: prefix_def)
      then show ?thesis by simp
    next
      case (Cons x pre')
      with e have "cs = pre' @ n @ post" by simp
      with Cons.IH have "includes_str cs n" by blast
      then show ?thesis by simp
    qed
  qed
qed

lemma includes_lower_iff:
  assumes "list_all is_lower w"
  shows "includes_str (toLowerCase s) w \<longleftrightarrow> contains_ci s w"
proof
  assume "includes_str (toLowerCase s) w"
  then obtain pre post where "map lower_char s = pre @ w @ post"
    by (auto simp: includes_str_iff toLowerCase_def)
  then obtain pre' r where s: "s = pre' @ r" and "map lower_char r = w @ post"
    by (metis map_eq_append_conv)
  then obtain mid post' where r: "r = mid @ post'" and "map lower_char mid = w"
    by (metis map_eq_append_conv)
  with assms have "list_all2 same_letter mid w" by (simp add: map_lower_eq_iff)
  with s r show "contains_ci s w" unfolding contains_ci_def by blast
next
  assume "contains_ci s w"
  then obtain pre mid post where s: "s = pre @ mid @ post" and "list_all2 same_letter mid w"
    unfolding contains_ci_def by blast
  with assms have "map lower_char mid = w" by (simp add: map_lower_eq_iff)
  with s have "map lower_char s = map lower_char pre @ w @ map lower_char post" by simp
  then show "includes_str (toLowerCase s) w"
    unfolding includes_str_iff toLowerCase_def by blast
qed

lemma includes_spasm_iff:
  "includes_str (toLowerCase s) ''spasm'' \<longleftrightarrow> contains_ci s ''spasm''"
  by (rule includes_lower_iff) (simp add: is_lower_def)

lemmas lower_eval = toLowerCase_def lower_char_def Let_def char_of_def bit_0

text \<open>
  Claim C6, as stated, fails: the muscle relaxant is not proposed "regardless of pain
  type". For a neuropathic assessment whose description contains the word, the adjuncts
  are the anticonvulsant and the antidepressant only.
\<close>

theorem muscle_relaxant_any_pain_type_counterexample:
  "contains_ci (description neuropathic_assessment) ''spasm'' \<and>
   classes (adjunctRecommendations
      (generateAnalgesicRecommendations neuropathic_assessment [] sample_patient)) =
     [adjuvant_anticonvulsant, adjuvant_antidepressant] \<and>
   adjuvant_muscle_relaxant \<notin> set (classes (adjunctRecommendations
      (generateAnalgesicRecommendations neuropathic_assessment [] sample_patient)))"
proof -
  have "includes_str (toLowerCase (description neuropathic_assessment)) ''spasm''"
    by (simp add: neuropathic_assessment_def sample_assessment_def lower_eval)
  then have "contains_ci (description neuropathic_assessment) ''spasm''"
    by (simp add: includes_spasm_iff)
  moreover have "classes (adjunctRecommendations
      (generateAnalgesicRecommendations neuropathic_assessment [] sample_patient)) =
     [adjuvant_anticonvulsant, adjuvant_antidepressant]"
    by (simp add: generateAnalgesicRecommendations_def Let_def classes_def
        neuropathic_assessment_def sample_assessment_def)
  ultimately show ?thesis by simp
qed

text \<open>
  Claim C6, amended. For every pain assessment of pain type nociceptive whose
  description contains the word \<open>spasm\<close> as a case-insensitive substring,
  \<open>generateAnalgesicRecommendations\<close> includes the muscle relaxant, with suitability
  \<open>consider\<close>, in the adjunct recommendations.
\<close>

theorem muscle_relaxant_for_nociceptive_spasm:
  assumes "painType a = nociceptive" and "contains_ci (description a) ''spasm''"
  shows "\<exists>r \<in> set (adjunctRecommendations (generateAnalgesicRecommendations a fs p)).
           drugClass r = adjuvant_muscle_relaxant \<and> suitability r = suit_consider"
proof -
  have "includes_str (toLowerCase (description a)) ''spasm''"
    using assms(2) by (simp add: includes_spasm_iff)
  with assms(1)
  have "muscleRelaxantRecommendation \<in>
          set (adjunctRecommendations (generateAnalgesicRecommendations a fs p))"
    by (simp add: generateAnalgesicRecommendations_def Let_def)
  moreover have "drugClass muscleRelaxantRecommendation = adjuvant_muscle_relaxant \<and>
                 suitability muscleRelaxantRecommendation = suit_consider"
    by (simp add: muscleRelaxantRecommendation_def)
  ultimately show ?thesis by blast
qed

theorem muscle_relaxant_for_nociceptive_spasm_witness:
  "painType spasm_assessment = nociceptive \<and>
   contains_ci (description spasm_assessment) ''spasm'' \<and>
   (\<exists>r \<in> set (adjunctRecommendations
                (generateAnalgesicRecommendations spasm_assessment [] sample_patient)).
      drugClass r = adjuvant_muscle_relaxant \<and> suitability r = suit_consider)"
proof -
  have h1: "painType spasm_assessment = nociceptive"
    by (simp add: spasm_assessment_def sample_assessment_def)
  have "includes_str (toLowerCase (description spasm_assessment)) ''spasm''"
    by (simp add: spasm_assessment_def sample_assessment_def lower_eval)
  then have h2: "contains_ci (description spasm_assessment) ''spasm''"
    by (simp add: includes_spasm_iff)
  from muscle_relaxant_for_nociceptive_spasm [OF h1 h2, of "[]" sample_patient] h1 h2
  show ?thesis by blast
qed

end
